theory Spec2Isabelle
  imports Complex_Main
begin

section \<open>Floating-point values\<close>

text \<open>
  The metrics of \<^verbatim>\<open>streamlit_task/processing.py\<close> compute on IEEE double values held in
  pandas Series. A value is a finite number, one of the two infinities, or NaN: NaN is the
  marker the code returns for a metric that cannot be computed (\<^verbatim>\<open>np.nan\<close>).

  Finite values are exact reals: rounding and overflow of finite results are not modelled.
  Zero carries no sign; a zero divisor counts as \<open>+0\<close>, which is the zero that a standard
  deviation, a variance and \<^verbatim>\<open>cumprod() - 1\<close> produce.

  A test against zero is therefore decided on the exact value. In doubles a quantity that
  is 0 exactly can come out as a rounding residue: the variance of the three values
  \<open>0.1, 0.1, 0.1\<close> is of the order \<open>1e-34\<close>, and a test \<^verbatim>\<open>== 0\<close> of the code does not
  fire there. The evaluations of guarded and unguarded divisions below are at inputs where
  the divisor is exact in doubles too.
\<close>

datatype fl = Fin real | PInf | NInf | NaN

fun fl_neg :: "fl \<Rightarrow> fl" where
  "fl_neg (Fin x) = Fin (- x)"
| "fl_neg PInf = NInf"
| "fl_neg NInf = PInf"
| "fl_neg NaN = NaN"

fun fl_add :: "fl \<Rightarrow> fl \<Rightarrow> fl" where
  "fl_add (Fin x) (Fin y) = Fin (x + y)"
| "fl_add (Fin x) PInf = PInf"
| "fl_add (Fin x) NInf = NInf"
| "fl_add PInf (Fin y) = PInf"
| "fl_add PInf PInf = PInf"
| "fl_add PInf NInf = NaN"
| "fl_add NInf (Fin y) = NInf"
| "fl_add NInf PInf = NaN"
| "fl_add NInf NInf = NInf"
| "fl_add NaN y = NaN"
| "fl_add x NaN = NaN"

definition fl_sub :: "fl \<Rightarrow> fl \<Rightarrow> fl" where
  "fl_sub x y = fl_add x (fl_neg y)"

text \<open>The infinity with the sign of a product or quotient; \<open>inf * 0\<close> is NaN.\<close>

definition signed_inf :: "real \<Rightarrow> fl" where
  "signed_inf s = (if s = 0 then NaN else if 0 < s then PInf else NInf)"

fun fl_mul :: "fl \<Rightarrow> fl \<Rightarrow> fl" where
  "fl_mul (Fin x) (Fin y) = Fin (x * y)"
| "fl_mul (Fin x) PInf = signed_inf x"
| "fl_mul (Fin x) NInf = signed_inf (- x)"
| "fl_mul PInf (Fin y) = signed_inf y"
| "fl_mul PInf PInf = PInf"
| "fl_mul PInf NInf = NInf"
| "fl_mul NInf (Fin y) = signed_inf (- y)"
| "fl_mul NInf PInf = NInf"
| "fl_mul NInf NInf = PInf"
| "fl_mul NaN y = NaN"
| "fl_mul x NaN = NaN"

text \<open>
  Division never raises on float arrays: a nonzero number over zero is an infinity with the
  sign of the numerator, and \<open>0 / 0\<close> and \<open>inf / inf\<close> are NaN.
\<close>

fun fl_div :: "fl \<Rightarrow> fl \<Rightarrow> fl" where
  "fl_div (Fin x) (Fin y) = (if y = 0 then signed_inf x else Fin (x / y))"
| "fl_div (Fin x) PInf = Fin 0"
| "fl_div (Fin x) NInf = Fin 0"
| "fl_div PInf (Fin y) = (if y < 0 then NInf else PInf)"
| "fl_div NInf (Fin y) = (if y < 0 then PInf else NInf)"
| "fl_div PInf PInf = NaN"
| "fl_div PInf NInf = NaN"
| "fl_div NInf PInf = NaN"
| "fl_div NInf NInf = NaN"
| "fl_div NaN y = NaN"
| "fl_div x NaN = NaN"

fun fl_sqrt :: "fl \<Rightarrow> fl" where
  "fl_sqrt (Fin x) = (if x < 0 then NaN else Fin (sqrt x))"
| "fl_sqrt PInf = PInf"
| "fl_sqrt NInf = NaN"
| "fl_sqrt NaN = NaN"

text \<open>Comparison: every comparison with NaN is false.\<close>

fun fl_less :: "fl \<Rightarrow> fl \<Rightarrow> bool" where
  "fl_less (Fin x) (Fin y) = (x < y)"
| "fl_less (Fin x) PInf = True"
| "fl_less NInf (Fin y) = True"
| "fl_less NInf PInf = True"
| "fl_less x y = False"

definition fl_eq :: "fl \<Rightarrow> fl \<Rightarrow> bool" where
  "fl_eq x y = (x \<noteq> NaN \<and> y \<noteq> NaN \<and> x = y)"

definition isna :: "fl \<Rightarrow> bool" where
  "isna x = (x = NaN)"

definition fl_min :: "fl \<Rightarrow> fl \<Rightarrow> fl" where
  "fl_min x y = (if fl_less y x then y else x)"

definition fl_max :: "fl \<Rightarrow> fl \<Rightarrow> fl" where
  "fl_max x y = (if fl_less x y then y else x)"

text \<open>\<^verbatim>\<open>np.minimum\<close>: the elementwise minimum; a NaN operand gives NaN.\<close>

definition np_minimum :: "fl \<Rightarrow> fl \<Rightarrow> fl" where
  "np_minimum x y = (if isna x \<or> isna y then NaN else fl_min x y)"

section \<open>The pandas and numpy operations the metrics call\<close>

text \<open>
  A Series is the list of its values in index order. Where two Series meet (subtraction,
  \<^verbatim>\<open>align\<close>) the index matters, and the Series is a list of label and value; labels are
  timestamps, here integers, and a Series has no duplicate label.
\<close>

type_synonym indexed = "(int \<times> fl) list"

definition dropna :: "fl list \<Rightarrow> fl list" where
  "dropna xs = filter (\<lambda>x. \<not> isna x) xs"

definition fillna :: "fl \<Rightarrow> fl list \<Rightarrow> fl list" where
  "fillna v xs = map (\<lambda>x. if isna x then v else x) xs"

primrec fl_sum :: "fl list \<Rightarrow> fl" where
  "fl_sum [] = Fin 0"
| "fl_sum (x # xs) = fl_add x (fl_sum xs)"

text \<open>
  \<^verbatim>\<open>Series.mean()\<close>, also reached by \<^verbatim>\<open>np.mean\<close> of a Series: missing values are
  skipped, and the mean of no value is NaN.
\<close>

definition series_mean :: "fl list \<Rightarrow> fl" where
  "series_mean xs =
     (let v = dropna xs in
      if v = [] then NaN else fl_div (fl_sum v) (Fin (real (length v))))"

text \<open>
  \<^verbatim>\<open>Series.var(ddof)\<close>: the squared deviations from the mean of the values present, over
  \<open>count - ddof\<close>; NaN when \<open>count \<le> ddof\<close>. \<^verbatim>\<open>Series.std()\<close> has \<open>ddof = 1\<close>;
  \<^verbatim>\<open>np.std\<close> and \<^verbatim>\<open>np.var\<close> of a Series call the Series method with \<open>ddof = 0\<close>.
\<close>

definition series_var :: "nat \<Rightarrow> fl list \<Rightarrow> fl" where
  "series_var ddof xs =
     (let v = dropna xs; count = length v in
      if count \<le> ddof then NaN
      else
        let avg = fl_div (fl_sum v) (Fin (real count));
            sqr = fl_sum (map (\<lambda>x. fl_mul (fl_sub avg x) (fl_sub avg x)) v)
        in fl_div sqr (Fin (real (count - ddof))))"

definition series_std :: "nat \<Rightarrow> fl list \<Rightarrow> fl" where
  "series_std ddof xs = fl_sqrt (series_var ddof xs)"

text \<open>\<^verbatim>\<open>Series.min()\<close>: the least value present, NaN when there is none.\<close>

definition series_min :: "fl list \<Rightarrow> fl" where
  "series_min xs =
     (case dropna xs of [] \<Rightarrow> NaN | v # vs \<Rightarrow> fold fl_min vs v)"

text \<open>
  \<^verbatim>\<open>Series.shift(1)\<close> and \<^verbatim>\<open>Series.pct_change()\<close>, which is
  \<^verbatim>\<open>data / data.shift(1) - 1\<close>, on a Series with no missing value.
\<close>

definition shift1 :: "fl list \<Rightarrow> fl list" where
  "shift1 xs = (if xs = [] then [] else NaN # butlast xs)"

definition pct_change :: "fl list \<Rightarrow> fl list" where
  "pct_change data = map2 (\<lambda>c p. fl_sub (fl_div c p) (Fin 1)) data (shift1 data)"

text \<open>
  \<^verbatim>\<open>Series.cumprod()\<close>: the running product, left to right. A missing value is skipped:
  it counts as 1 in the product and its own position stays NaN.
\<close>

fun np_cumprod :: "fl \<Rightarrow> fl list \<Rightarrow> fl list" where
  "np_cumprod acc [] = []"
| "np_cumprod acc (x # xs) = fl_mul acc x # np_cumprod (fl_mul acc x) xs"

definition cumprod :: "fl list \<Rightarrow> fl list" where
  "cumprod xs =
     map2 (\<lambda>x c. if isna x then NaN else c) xs
       (np_cumprod (Fin 1) (map (\<lambda>x. if isna x then Fin 1 else x) xs))"

text \<open>
  \<^verbatim>\<open>Series.expanding(min_periods=1).max()\<close>: at each position the greatest value present
  so far, NaN while there is none.
\<close>

fun expanding_max :: "fl \<Rightarrow> fl list \<Rightarrow> fl list" where
  "expanding_max m [] = []"
| "expanding_max m (x # xs) =
     (let m' = (if isna x then m else if isna m then x else fl_max m x)
      in m' # expanding_max m' xs)"

text \<open>
  \<^verbatim>\<open>Series.quantile(q)\<close> with the default linear interpolation: the values present are
  sorted, the position is \<open>q * (n - 1)\<close>, and the result interpolates between the two
  neighbours as numpy does. A \<open>q\<close> outside \<open>[0, 1]\<close> raises ValueError.
\<close>

datatype error = ValueError | KeyError

fun fl_insort :: "fl \<Rightarrow> fl list \<Rightarrow> fl list" where
  "fl_insort x [] = [x]"
| "fl_insort x (y # ys) = (if fl_less y x then y # fl_insort x ys else x # y # ys)"

definition fl_sort :: "fl list \<Rightarrow> fl list" where
  "fl_sort xs = foldr fl_insort xs []"

definition lerp :: "fl \<Rightarrow> fl \<Rightarrow> real \<Rightarrow> fl" where
  "lerp a b t =
     (if t < 1 / 2 then fl_add a (fl_mul (fl_sub b a) (Fin t))
      else fl_sub b (fl_mul (fl_sub b a) (Fin (1 - t))))"

definition quantile :: "fl list \<Rightarrow> real \<Rightarrow> error + fl" where
  "quantile xs q =
     (if q < 0 \<or> 1 < q then Inl ValueError
      else
        let v = fl_sort (dropna xs); n = length v in
        if n = 0 then Inr NaN
        else
          let pos = q * real (n - 1);
              lo = nat \<lfloor>pos\<rfloor>;
              hi = min (lo + 1) (n - 1)
          in Inr (lerp (v ! lo) (v ! hi) (pos - real lo)))"

text \<open>
  Subtraction of two Series: the result has the union of the two indexes, in order, and is
  NaN at a label that one side lacks.
\<close>

definition series_sub :: "indexed \<Rightarrow> indexed \<Rightarrow> indexed" where
  "series_sub a b =
     map (\<lambda>t. (t, case (map_of a t, map_of b t) of
                      (Some x, Some y) \<Rightarrow> fl_sub x y
                    | _ \<Rightarrow> NaN))
       (sort (remdups (map fst a @ map fst b)))"

text \<open>
  \<^verbatim>\<open>a.align(b, join='inner')\<close>: both Series cut down to the labels they share. Then
  \<^verbatim>\<open>pd.concat([a, b], axis=1)\<close> of two Series with one index is the table of their rows,
  and \<^verbatim>\<open>dropna()\<close> drops every row with a NaN in it.
\<close>

definition align_inner :: "indexed \<Rightarrow> indexed \<Rightarrow> indexed \<times> indexed" where
  "align_inner a b =
     (filter (\<lambda>(t, x). t \<in> fst ` set b) a,
      concat (map (\<lambda>(t, x). case map_of b t of None \<Rightarrow> [] | Some y \<Rightarrow> [(t, y)]) a))"

definition concat_columns :: "indexed \<Rightarrow> indexed \<Rightarrow> (int \<times> fl \<times> fl) list" where
  "concat_columns a b = map2 (\<lambda>(t, x) (u, y). (t, x, y)) a b"

definition dropna_rows :: "(int \<times> fl \<times> fl) list \<Rightarrow> (int \<times> fl \<times> fl) list" where
  "dropna_rows rows = filter (\<lambda>(t, x, y). \<not> isna x \<and> \<not> isna y) rows"

text \<open>
  \<^verbatim>\<open>np.cov(x, y)[0][1]\<close> of two arrays of one length \<open>N\<close>: the products of the deviations
  from the two means, summed and multiplied by \<open>1 / (N - 1)\<close>; numpy sets the factor
  \<open>N - 1\<close> to 0 when it is not positive.
\<close>

definition np_mean :: "fl list \<Rightarrow> fl" where
  "np_mean xs = fl_div (fl_sum xs) (Fin (real (length xs)))"

definition np_cov :: "fl list \<Rightarrow> fl list \<Rightarrow> fl" where
  "np_cov xs ys =
     (let fact = (if length xs \<le> 1 then 0 else real (length xs) - 1);
          ax = np_mean xs;
          ay = np_mean ys;
          c = fl_sum (map2 (\<lambda>x y. fl_mul (fl_sub x ax) (fl_sub y ay)) xs ys)
      in fl_mul c (fl_div (Fin 1) (Fin fact)))"

section \<open>processing.py\<close>

text \<open>
  The price data is a Series of prices or a table with a column \<^verbatim>\<open>Adj Close\<close>; prices are
  numbers. The index of the result is the index of the prices and is left out.
\<close>

datatype price_data = Series "real list" | DataFrame "(string \<times> real list) list"

definition returns :: "real list \<Rightarrow> fl list" where
  "returns prices = fillna (Fin 0) (pct_change (map Fin prices))"

definition cumulative_returns :: "fl list \<Rightarrow> fl list" where
  "cumulative_returns rs =
     map (\<lambda>c. fl_sub c (Fin 1)) (cumprod (map (\<lambda>r. fl_add (Fin 1) r) rs))"

definition calculate_cumulative_returns :: "price_data \<Rightarrow> error + fl list" where
  "calculate_cumulative_returns data =
     (case data of
        Series prices \<Rightarrow> Inr (cumulative_returns (returns prices))
      | DataFrame columns \<Rightarrow>
          (case map_of columns ''Adj Close'' of
             None \<Rightarrow> Inl KeyError
           | Some prices \<Rightarrow> Inr (cumulative_returns (returns prices))))"

definition calculate_annual_volatility :: "fl list \<Rightarrow> fl" where
  "calculate_annual_volatility rs = fl_mul (series_std 1 rs) (Fin (sqrt 252))"

definition calculate_sharpe_ratio :: "fl list \<Rightarrow> real \<Rightarrow> fl" where
  "calculate_sharpe_ratio rs risk_free_rate =
     (let excess_returns = fl_sub (series_mean rs) (Fin (risk_free_rate / 252))
      in fl_mul (fl_div excess_returns (series_std 1 rs)) (Fin (sqrt 252)))"

definition calculate_maximum_drawdown :: "fl list \<Rightarrow> fl" where
  "calculate_maximum_drawdown cum =
     (let peak = expanding_max NaN cum;
          drawdown = map2 (\<lambda>c p. fl_div (fl_sub c p) p) cum peak
      in series_min drawdown)"

definition calculate_var :: "fl list \<Rightarrow> real \<Rightarrow> real \<Rightarrow> error + fl" where
  "calculate_var rs confidence period =
     (if rs = [] then Inr NaN
      else
        case quantile rs (1 - confidence) of
          Inl e \<Rightarrow> Inl e
        | Inr var \<Rightarrow>
            let var_annual = fl_mul var (fl_sqrt (Fin period))
            in Inr (fl_neg var_annual))"

definition calculate_tracking_error :: "indexed \<Rightarrow> indexed \<Rightarrow> fl" where
  "calculate_tracking_error portfolio_returns benchmark_returns =
     fl_mul (series_std 0 (map snd (series_sub portfolio_returns benchmark_returns)))
       (Fin (sqrt 252))"

definition calculate_information_ratio :: "indexed \<Rightarrow> indexed \<Rightarrow> fl" where
  "calculate_information_ratio portfolio_returns benchmark_returns =
     (let excess_returns = map snd (series_sub portfolio_returns benchmark_returns)
      in fl_mul (fl_div (series_mean excess_returns) (series_std 0 excess_returns))
           (Fin (sqrt 252)))"

definition calculate_sortino_ratio :: "fl list \<Rightarrow> real \<Rightarrow> fl" where
  "calculate_sortino_ratio rs risk_free_rate =
     (let excess_returns = map (\<lambda>r. fl_sub r (Fin (risk_free_rate / 252))) rs;
          downside_returns = map (\<lambda>e. np_minimum e (Fin 0)) excess_returns;
          downside_deviation =
            fl_mul (fl_sqrt (series_mean (map (\<lambda>d. fl_mul d d) downside_returns)))
              (Fin (sqrt 252))
      in if \<not> fl_eq downside_deviation (Fin 0)
         then fl_div (fl_mul (series_mean excess_returns) (Fin 252)) downside_deviation
         else NaN)"

text \<open>
  \<^verbatim>\<open>calculate_alpha_beta\<close> takes the covariance from \<^verbatim>\<open>np.cov\<close> of two arrays, which
  divides by \<open>N - 1\<close>, and the variance from \<^verbatim>\<open>np.var\<close> of a Series, which divides by
  \<open>N\<close>. The test \<^verbatim>\<open>benchmark_variance == 0\<close> is decided on the exact variance: it stands
  for the code's test only where the variance is computed without rounding.
\<close>

definition calculate_alpha_beta :: "indexed \<Rightarrow> indexed \<Rightarrow> fl \<times> fl" where
  "calculate_alpha_beta portfolio_returns benchmark_returns =
     (let (p, b) = align_inner portfolio_returns benchmark_returns;
          valid_data = dropna_rows (concat_columns p b)
      in if length valid_data < 2 then (NaN, NaN)
         else
           let p' = map (\<lambda>(t, x, y). x) valid_data;
               b' = map (\<lambda>(t, x, y). y) valid_data;
               covariance = np_cov p' b';
               benchmark_variance = series_var 0 b'
           in if fl_eq benchmark_variance (Fin 0) then (NaN, NaN)
              else
                let beta = fl_div covariance benchmark_variance;
                    alpha = fl_sub (series_mean p') (fl_mul beta (series_mean b'))
                in (fl_mul alpha (Fin 252), beta))"

section \<open>Reference formulas\<close>

text \<open>
  The formulas of the specification over exact reals, for series of finite values. The
  theorems below compare the functions of \<^verbatim>\<open>processing.py\<close> with them.
\<close>

definition mean :: "real list \<Rightarrow> real" where
  "mean xs = sum_list xs / real (length xs)"

text \<open>The sum of the squared deviations from the mean.\<close>

definition sum_sq_dev :: "real list \<Rightarrow> real" where
  "sum_sq_dev xs = (\<Sum>x\<leftarrow>xs. (mean xs - x)\<^sup>2)"

text \<open>The product \<open>\<Prod>\<close> of a list of values, taken left to right from 1.\<close>

definition fl_prod :: "fl list \<Rightarrow> fl" where
  "fl_prod xs = foldl fl_mul (Fin 1) xs"

text \<open>
  The price rebuilt at position \<open>i\<close> from the first price and the returns:
  \<open>price[0] * \<Prod>\<^sub>j\<^sub>=\<^sub>1\<^sub>.\<^sub>.\<^sub>i (1 + r[j])\<close>.
\<close>

definition reconstruct_price :: "real \<Rightarrow> fl list \<Rightarrow> nat \<Rightarrow> fl" where
  "reconstruct_price p0 rs i =
     fl_mul (Fin p0) (fl_prod (map (\<lambda>r. fl_add (Fin 1) r) (take i (drop 1 rs))))"

text \<open>\<open>sqrt(mean(min(r - rf/252, 0)\<^sup>2)) * sqrt(252)\<close>.\<close>

definition downside_deviation :: "real list \<Rightarrow> real \<Rightarrow> real" where
  "downside_deviation rs rf =
     sqrt (mean (map (\<lambda>r. (min (r - rf / 252) 0)\<^sup>2) rs)) * sqrt 252"

text \<open>
  The quantile by linear interpolation between the two order statistics around the
  position \<open>q * (n - 1)\<close>.
\<close>

definition quantile_linear :: "real list \<Rightarrow> real \<Rightarrow> real" where
  "quantile_linear xs q =
     (let s = sort xs;
          pos = q * real (length xs - 1);
          lo = nat \<lfloor>pos\<rfloor>;
          hi = min (lo + 1) (length xs - 1)
      in s ! lo + (pos - real lo) * (s ! hi - s ! lo))"

text \<open>The table \<^verbatim>\<open>valid_data\<close> of \<^verbatim>\<open>calculate_alpha_beta\<close>.\<close>

definition valid_rows :: "indexed \<Rightarrow> indexed \<Rightarrow> (int \<times> fl \<times> fl) list" where
  "valid_rows p b = (let (p', b') = align_inner p b in dropna_rows (concat_columns p' b'))"

text \<open>The returns of the example of the specification for the value at risk.\<close>

definition var_example :: "real list" where
  "var_example = [1 / 100, - (2 / 100), 15 / 1000, - (5 / 1000), 2 / 100]"

section \<open>Arithmetic on finite values\<close>

lemma isna_Fin [simp]: "\<not> isna (Fin x)"
  by (simp add: isna_def)

lemma fl_sub_Fin [simp]: "fl_sub (Fin x) (Fin y) = Fin (x - y)"
  by (simp add: fl_sub_def)

lemma fl_sub_NaN [simp]: "fl_sub x NaN = NaN" "fl_sub NaN y = NaN"
  by (cases x; simp add: fl_sub_def)+

lemma fl_div_NaN [simp]: "fl_div x NaN = NaN"
  by (cases x) simp_all

lemma np_minimum_Fin [simp]: "np_minimum (Fin x) (Fin y) = Fin (min x y)"
  by (simp add: np_minimum_def fl_min_def min_def)

lemma fl_add_one_not_na: "\<not> isna r \<Longrightarrow> \<not> isna (fl_add (Fin 1) r)"
  by (cases r) (simp_all add: isna_def)

lemma fl_prod_snoc: "fl_prod (xs @ [x]) = fl_mul (fl_prod xs) x"
  by (simp add: fl_prod_def)

lemma dropna_Fin [simp]: "dropna (map Fin xs) = map Fin xs"
  by (induction xs) (simp_all add: dropna_def)

lemma fl_sum_Fin [simp]: "fl_sum (map Fin xs) = Fin (sum_list xs)"
  by (induction xs) simp_all

section \<open>Mean, variance and standard deviation of finite series\<close>

lemma series_mean_Fin: "xs \<noteq> [] \<Longrightarrow> series_mean (map Fin xs) = Fin (mean xs)"
  by (simp add: series_mean_def mean_def)

lemma mean_nonneg: "(\<And>x. x \<in> set xs \<Longrightarrow> 0 \<le> x) \<Longrightarrow> 0 \<le> mean xs"
  by (simp add: mean_def sum_list_nonneg)

lemma fl_sum_sq_Fin:
  "fl_sum (map (\<lambda>x. fl_mul (fl_sub (Fin a) x) (fl_sub (Fin a) x)) (map Fin xs)) =
     Fin (\<Sum>x\<leftarrow>xs. (a - x)\<^sup>2)"
  by (induction xs) (simp_all add: fl_sub_def power2_eq_square)

lemma series_var_Fin:
  "d < length xs \<Longrightarrow>
   series_var d (map Fin xs) = Fin (sum_sq_dev xs / real (length xs - d))"
  by (auto simp add: series_var_def Let_def fl_sum_sq_Fin sum_sq_dev_def mean_def
      simp del: map_map)

lemma series_var_short: "length xs \<le> d \<Longrightarrow> series_var d (map Fin xs) = NaN"
  by (simp add: series_var_def Let_def)

lemma sum_sq_dev_nonneg: "0 \<le> sum_sq_dev xs"
  unfolding sum_sq_dev_def by (rule sum_list_nonneg) auto

lemma sum_sq_dev_single [simp]: "sum_sq_dev [x] = 0"
  by (simp add: sum_sq_dev_def mean_def)

lemma series_std_Fin:
  "d < length xs \<Longrightarrow>
   series_std d (map Fin xs) = Fin (sqrt (sum_sq_dev xs / real (length xs - d)))"
  using sum_sq_dev_nonneg[of xs]
  by (simp add: series_std_def series_var_Fin not_less)

section \<open>Returns and cumulative returns\<close>

lemma length_shift1 [simp]: "length (shift1 xs) = length xs"
  by (cases xs) (simp_all add: shift1_def)

lemma shift1_nth:
  "i < length xs \<Longrightarrow> shift1 xs ! i = (if i = 0 then NaN else xs ! (i - 1))"
  by (cases i) (auto simp: shift1_def nth_butlast)

lemma length_pct_change [simp]: "length (pct_change xs) = length xs"
  by (simp add: pct_change_def)

lemma length_returns [simp]: "length (returns P) = length P"
  by (simp add: returns_def fillna_def)

lemma returns_nth:
  "i < length P \<Longrightarrow>
   returns P ! i =
     (if i = 0 then Fin 0
      else if P ! i = 0 \<and> P ! (i - 1) = 0 then Fin 0
      else fl_sub (fl_div (Fin (P ! i)) (Fin (P ! (i - 1)))) (Fin 1))"
  by (auto simp: returns_def fillna_def pct_change_def shift1_nth isna_def signed_inf_def
      fl_sub_def)

lemma returns_nth_nonzero:
  assumes "0 < j" "j < length P" "P ! (j - 1) \<noteq> 0"
  shows "returns P ! j = Fin (P ! j / P ! (j - 1) - 1)"
  using assms by (simp add: returns_nth)

lemma returns_not_na: "x \<in> set (returns P) \<Longrightarrow> \<not> isna x"
  by (auto simp: returns_def fillna_def isna_def)

lemma length_np_cumprod [simp]: "length (np_cumprod acc xs) = length xs"
  by (induction xs arbitrary: acc) simp_all

lemma np_cumprod_nth:
  "i < length xs \<Longrightarrow> np_cumprod acc xs ! i = foldl fl_mul acc (take (Suc i) xs)"
proof (induction xs arbitrary: acc i)
  case Nil
  then show ?case by simp
next
  case (Cons x xs)
  then show ?case by (cases i) simp_all
qed

lemma cumprod_no_na:
  assumes "\<forall>x\<in>set xs. \<not> isna x"
  shows "cumprod xs = np_cumprod (Fin 1) xs"
proof -
  have m: "map (\<lambda>x. if isna x then Fin 1 else x) xs = xs"
    using assms by (simp add: map_idI)
  show ?thesis
    unfolding cumprod_def m using assms
    by (intro nth_equalityI) simp_all
qed

lemma length_cumulative_returns [simp]: "length (cumulative_returns rs) = length rs"
  by (simp add: cumulative_returns_def cumprod_def)

lemma cumulative_returns_nth:
  assumes "\<forall>r\<in>set rs. \<not> isna r" and "i < length rs"
  shows "cumulative_returns rs ! i =
           fl_sub (fl_prod (map (\<lambda>r. fl_add (Fin 1) r) (take (Suc i) rs))) (Fin 1)"
proof -
  let ?g = "map (\<lambda>r. fl_add (Fin 1) r) rs"
  have "\<forall>x\<in>set ?g. \<not> isna x"
    using assms(1) by (auto simp: fl_add_one_not_na)
  then have "cumprod ?g = np_cumprod (Fin 1) ?g"
    by (rule cumprod_no_na)
  then show ?thesis
    using assms(2) by (simp add: cumulative_returns_def np_cumprod_nth fl_prod_def take_map)
qed

lemma returns_example: "returns [100, 110, 99] = [Fin 0, Fin (1 / 10), Fin (- (1 / 10))]"
  by (simp add: returns_def fillna_def pct_change_def shift1_def isna_def)

lemma cumulative_returns_example:
  "cumulative_returns [Fin 0, Fin (1 / 10), Fin (- (1 / 10))] =
     [Fin 0, Fin (1 / 10), Fin (- (1 / 100))]"
  by (simp add: cumulative_returns_def cumprod_def isna_def)

text \<open>
  With no zero price, the growth factors \<open>1 + r[j]\<close> from 1 to \<open>i\<close> multiply to
  \<open>P[i] / P[0]\<close>.
\<close>

lemma growth_telescopes:
  assumes nz: "\<forall>p\<in>set P. p \<noteq> 0"
  shows "i < length P \<Longrightarrow>
    fl_prod (map (\<lambda>r. fl_add (Fin 1) r) (take i (drop 1 (returns P)))) = Fin (P ! i / P ! 0)"
proof (induction i)
  case 0
  then have "P ! 0 \<noteq> 0" using nz by (simp add: nth_mem)
  then show ?case by (simp add: fl_prod_def)
next
  case (Suc i)
  then have lt: "i < length P" and lt': "i < length (drop 1 (returns P))" by simp_all
  have nzi: "P ! i \<noteq> 0" using nz lt by (simp add: nth_mem)
  have step: "drop (Suc 0) (returns P) ! i = Fin (P ! Suc i / P ! i - 1)"
    using Suc.prems returns_nth_nonzero[of "Suc i" P] nzi by simp
  have "take (Suc i) (drop 1 (returns P)) =
          take i (drop 1 (returns P)) @ [drop 1 (returns P) ! i]"
    using lt' by (rule take_Suc_conv_app_nth)
  then show ?case
    using Suc.IH[OF lt] nzi by (simp add: fl_prod_snoc step)
qed

subsection \<open>The return series and the cumulative series (C2)\<close>

text \<open>
  C2, as the specification states it: for every non-empty price series \<open>P\<close> the return
  series has \<open>r[0] = 0\<close> and \<open>r[i] = P[i] / P[i-1] - 1\<close> for \<open>i > 0\<close>. The code fills
  every NaN of the percentage change with 0, not only the leading one: where two
  consecutive prices are 0 the quotient \<open>0 / 0\<close> is NaN and the return is 0, which is not
  the value of \<open>P[i] / P[i-1] - 1\<close>.
\<close>

theorem returns_zero_prices_filled:
  "returns [0, 0] ! 1 = Fin 0 \<and>
   returns [0, 0] ! 1 \<noteq> fl_sub (fl_div (Fin ([0, 0] ! 1)) (Fin ([0, 0] ! 0))) (Fin 1)"
  by (simp add: returns_def fillna_def pct_change_def shift1_def isna_def signed_inf_def)

text \<open>
  C2, amended: for every non-empty price series \<open>P\<close>, \<open>r[0] = 0\<close> and for \<open>i > 0\<close>
  \<open>r[i] = P[i] / P[i-1] - 1\<close> in float arithmetic (an infinity when only \<open>P[i-1]\<close> is
  0), except that \<open>r[i] = 0\<close> when \<open>P[i] = P[i-1] = 0\<close>; the result of
  \<^verbatim>\<open>calculate_cumulative_returns\<close> is \<open>cumulative[i] = \<Prod>\<^sub>j\<^sub>=\<^sub>0\<^sub>.\<^sub>.\<^sub>i (1 + r[j]) - 1\<close>; and for
  the prices \<open>[100, 110, 99]\<close> the returns are \<open>[0, 0.10, -0.10]\<close> and the cumulative
  series is \<open>[0, 0.10, -0.01]\<close>.
\<close>

theorem calculate_cumulative_returns_closed_form:
  assumes "P \<noteq> []"
  shows "length (returns P) = length P \<and> returns P ! 0 = Fin 0 \<and>
    (\<forall>i. 0 < i \<and> i < length P \<longrightarrow>
       returns P ! i =
         (if P ! i = 0 \<and> P ! (i - 1) = 0 then Fin 0
          else fl_sub (fl_div (Fin (P ! i)) (Fin (P ! (i - 1)))) (Fin 1))) \<and>
    (\<exists>cum. calculate_cumulative_returns (Series P) = Inr cum \<and> length cum = length P \<and>
       (\<forall>i<length P.
          cum ! i =
            fl_sub (fl_prod (map (\<lambda>r. fl_add (Fin 1) r) (take (Suc i) (returns P))))
              (Fin 1))) \<and>
    returns [100, 110, 99] = [Fin 0, Fin (1 / 10), Fin (- (1 / 10))] \<and>
    calculate_cumulative_returns (Series [100, 110, 99]) =
      Inr [Fin 0, Fin (1 / 10), Fin (- (1 / 100))]"
proof -
  have na: "\<forall>r\<in>set (returns P). \<not> isna r"
    by (simp add: returns_not_na)
  have r0: "returns P ! 0 = Fin 0"
    using assms by (simp add: returns_nth)
  have ri: "\<forall>i. 0 < i \<and> i < length P \<longrightarrow>
       returns P ! i =
         (if P ! i = 0 \<and> P ! (i - 1) = 0 then Fin 0
          else fl_sub (fl_div (Fin (P ! i)) (Fin (P ! (i - 1)))) (Fin 1))"
    by (simp add: returns_nth)
  have cum: "\<forall>i<length P.
       cumulative_returns (returns P) ! i =
         fl_sub (fl_prod (map (\<lambda>r. fl_add (Fin 1) r) (take (Suc i) (returns P)))) (Fin 1)"
    using cumulative_returns_nth[OF na] by simp
  have ex: "calculate_cumulative_returns (Series [100, 110, 99]) =
      Inr [Fin 0, Fin (1 / 10), Fin (- (1 / 100))]"
    by (simp add: calculate_cumulative_returns_def returns_example cumulative_returns_example)
  show ?thesis
    using r0 ri cum ex returns_example
    by (simp add: calculate_cumulative_returns_def)
qed

theorem calculate_cumulative_returns_closed_form_witness:
  "[5, 10, 0, 0] \<noteq> ([] :: real list) \<and>
   returns [5, 10, 0, 0] = [Fin 0, Fin 1, Fin (- 1), Fin 0] \<and>
   calculate_cumulative_returns (Series [5, 10, 0, 0]) = Inr [Fin 0, Fin 1, Fin (- 1), Fin (- 1)]"
proof -
  have ne: "[5, 10, 0, 0] \<noteq> ([] :: real list)" by simp
  have r: "returns [5, 10, 0, 0] = [Fin 0, Fin 1, Fin (- 1), Fin 0]"
    by (simp add: returns_def fillna_def pct_change_def shift1_def isna_def signed_inf_def)
  obtain cum where c: "calculate_cumulative_returns (Series [5, 10, 0, 0]) = Inr cum"
      "length cum = length [5, 10, 0, 0 :: real]"
      "\<forall>i<length [5, 10, 0, 0 :: real].
          cum ! i =
            fl_sub (fl_prod (map (\<lambda>r. fl_add (Fin 1) r) (take (Suc i) (returns [5, 10, 0, 0]))))
              (Fin 1)"
    using calculate_cumulative_returns_closed_form[OF ne] by blast
  have "cum ! 0 = Fin 0" "cum ! 1 = Fin 1" "cum ! 2 = Fin (- 1)" "cum ! 3 = Fin (- 1)"
    using c(3) by (simp_all add: r fl_prod_def)
  moreover have "length cum = 4" using c(2) by simp
  ultimately have "cum = [Fin 0, Fin 1, Fin (- 1), Fin (- 1)]"
    by (intro nth_equalityI) (auto simp: less_Suc_eq numeral_eq_Suc)
  then show ?thesis using ne r c(1) by simp
qed

subsection \<open>The first cumulative return (C8)\<close>

text \<open>
  C8: for every non-empty price series \<open>P\<close>, the first element of the cumulative-return
  series that \<^verbatim>\<open>calculate_cumulative_returns\<close> gives is the first element of the return
  series: the chained product starts at 1.
\<close>

theorem cumulative_first_equals_return_first:
  assumes "P \<noteq> []"
  shows "\<exists>cum. calculate_cumulative_returns (Series P) = Inr cum \<and> cum ! 0 = returns P ! 0"
proof -
  have pos: "0 < length (returns P)" using assms by simp
  have r0: "returns P ! 0 = Fin 0" using assms by (simp add: returns_nth)
  have na: "\<forall>r\<in>set (returns P). \<not> isna r" by (simp add: returns_not_na)
  have "take (Suc 0) (returns P) = [returns P ! 0]"
    using pos by (simp add: take_Suc_conv_app_nth)
  then have "cumulative_returns (returns P) ! 0 = Fin 0"
    using cumulative_returns_nth[OF na pos] r0 by (simp add: fl_prod_def)
  then show ?thesis by (simp add: calculate_cumulative_returns_def r0)
qed

theorem cumulative_first_equals_return_first_witness:
  "[100, 90] \<noteq> ([] :: real list) \<and>
   (\<exists>cum. calculate_cumulative_returns (Series [100, 90]) = Inr cum \<and>
      cum ! 0 = returns [100, 90] ! 0 \<and> cum ! 0 = Fin 0)"
proof -
  have ne: "[100, 90] \<noteq> ([] :: real list)" by simp
  obtain cum where c: "calculate_cumulative_returns (Series [100, 90]) = Inr cum"
      "cum ! 0 = returns [100, 90] ! 0"
    using cumulative_first_equals_return_first[OF ne] by blast
  have "returns [100, 90] ! 0 = Fin 0" by (simp add: returns_nth)
  then show ?thesis using ne c by simp
qed

subsection \<open>Prices rebuilt from returns (C9)\<close>

text \<open>
  C9: for every non-empty price series \<open>P\<close> with nonzero prices, the price rebuilt at each
  position from the first price and the return series of the builder,
  \<open>price[0] * \<Prod>\<^sub>j\<^sub>=\<^sub>1\<^sub>.\<^sub>.\<^sub>i (1 + r[j])\<close>, is the original price, exactly over exact arithmetic.
\<close>

theorem returns_roundtrip:
  assumes "\<forall>p\<in>set P. p \<noteq> 0" and "i < length P"
  shows "reconstruct_price (P ! 0) (returns P) i = Fin (P ! i)"
proof -
  have "0 < length P" using assms(2) by (cases P) simp_all
  then have "P ! 0 \<in> set P" by (rule nth_mem)
  then have "P ! 0 \<noteq> 0" using assms(1) by blast
  then show ?thesis
    using growth_telescopes[OF assms] by (simp add: reconstruct_price_def)
qed

theorem returns_roundtrip_witness:
  "list_all (\<lambda>p. p \<noteq> 0) [100, 110, 99 :: real] \<and> (2::nat) < length [100, 110, 99 :: real] \<and>
   returns [100, 110, 99] = [Fin 0, Fin (1 / 10), Fin (- (1 / 10))] \<and>
   reconstruct_price 100 (returns [100, 110, 99]) 2 = Fin 99"
  using returns_roundtrip[of "[100, 110, 99]" 2] by (simp add: returns_example)

section \<open>Volatility, Sharpe ratio, tracking error and information ratio\<close>

lemma sqrt_ratio:
  assumes "2 \<le> n"
  shows "sqrt (s / real n) = sqrt ((real n - 1) / real n) * sqrt (s / (real n - 1))"
proof -
  have "(real n - 1) / real n * (s / (real n - 1)) = s / real n"
    using assms by (simp add: field_simps)
  then show ?thesis by (simp flip: real_sqrt_mult)
qed

lemma calculate_annual_volatility_Fin:
  assumes "2 \<le> length ds"
  shows "calculate_annual_volatility (map Fin ds) =
           Fin (sqrt (sum_sq_dev ds / (real (length ds) - 1)) * sqrt 252)"
proof -
  have "series_std 1 (map Fin ds) = Fin (sqrt (sum_sq_dev ds / real (length ds - 1)))"
    using assms by (intro series_std_Fin) simp
  moreover have "real (length ds - 1) = real (length ds) - 1"
    using assms by (simp add: of_nat_diff)
  ultimately show ?thesis by (simp add: calculate_annual_volatility_def)
qed

lemma calculate_tracking_error_Fin:
  assumes "map snd (series_sub p b) = map Fin ds" "1 \<le> length ds"
  shows "calculate_tracking_error p b =
           Fin (sqrt (sum_sq_dev ds / real (length ds)) * sqrt 252)"
proof -
  have "0 < length ds" using assms(2) by (cases ds) simp_all
  then have "series_std 0 (map Fin ds) = Fin (sqrt (sum_sq_dev ds / real (length ds - 0)))"
    by (rule series_std_Fin)
  then show ?thesis by (simp add: calculate_tracking_error_def assms(1))
qed

lemma calculate_information_ratio_Fin:
  assumes "map snd (series_sub p b) = map Fin ds" "1 \<le> length ds"
  shows "calculate_information_ratio p b =
           fl_mul (fl_div (Fin (mean ds)) (Fin (sqrt (sum_sq_dev ds / real (length ds)))))
             (Fin (sqrt 252))"
proof -
  have pos: "0 < length ds" using assms(2) by (cases ds) simp_all
  then have "series_std 0 (map Fin ds) = Fin (sqrt (sum_sq_dev ds / real (length ds - 0)))"
    by (rule series_std_Fin)
  moreover have "series_mean (map Fin ds) = Fin (mean ds)"
    using pos by (intro series_mean_Fin) auto
  ultimately show ?thesis
    by (simp add: calculate_information_ratio_def Let_def assms(1))
qed

subsection \<open>Sharpe ratio of constant returns (C1)\<close>

text \<open>
  C1 asks that the Sharpe ratio of a series of at least 2 constant returns, whose standard
  deviation is 0, is NaN and never an infinity. \<^verbatim>\<open>calculate_sharpe_ratio\<close> divides by the
  standard deviation with no check: for the two returns \<open>0.01, 0.01\<close> and the risk-free
  rate \<open>0.01\<close> the standard deviation is 0 and the result is \<open>+inf\<close>.
\<close>

theorem sharpe_ratio_constant_returns_infinite:
  "series_std 1 [Fin (1 / 100), Fin (1 / 100)] = Fin 0 \<and>
   calculate_sharpe_ratio [Fin (1 / 100), Fin (1 / 100)] (1 / 100) = PInf"
proof -
  have s: "series_std 1 [Fin (1 / 100), Fin (1 / 100)] = Fin 0"
    using series_std_Fin[of 1 "[1 / 100, 1 / 100]"]
    by (simp add: sum_sq_dev_def mean_def)
  have m: "series_mean [Fin (1 / 100), Fin (1 / 100)] = Fin (1 / 100)"
    using series_mean_Fin[of "[1 / 100, 1 / 100]"] by (simp add: mean_def)
  have "calculate_sharpe_ratio [Fin (1 / 100), Fin (1 / 100)] (1 / 100) = PInf"
    unfolding calculate_sharpe_ratio_def Let_def s m by (simp add: signed_inf_def)
  then show ?thesis using s by simp
qed

subsection \<open>Fewer than two aligned points (C6)\<close>

text \<open>
  C6 asks that \<^verbatim>\<open>calculate_tracking_error\<close> and \<^verbatim>\<open>calculate_information_ratio\<close> check for
  fewer than 2 aligned points and return NaN then. Neither function has the check. With
  the single aligned point \<open>0.02\<close> against \<open>0.01\<close> the tracking error is the number 0
  and the information ratio is \<open>+inf\<close>.
\<close>

theorem tracking_error_information_ratio_single_point:
  "calculate_tracking_error [(0, Fin (2 / 100))] [(0, Fin (1 / 100))] = Fin 0 \<and>
   calculate_information_ratio [(0, Fin (2 / 100))] [(0, Fin (1 / 100))] = PInf"
proof -
  have d: "map snd (series_sub [(0, Fin (2 / 100))] [(0, Fin (1 / 100))]) = map Fin [1 / 100]"
    by (simp add: series_sub_def)
  have "calculate_tracking_error [(0, Fin (2 / 100))] [(0, Fin (1 / 100))] = Fin 0"
    using calculate_tracking_error_Fin[OF d] by simp
  moreover have "calculate_information_ratio [(0, Fin (2 / 100))] [(0, Fin (1 / 100))] = PInf"
    using calculate_information_ratio_Fin[OF d] by (simp add: mean_def signed_inf_def)
  ultimately show ?thesis by simp
qed

subsection \<open>Two standard deviations (C10)\<close>

text \<open>
  C10: \<^verbatim>\<open>calculate_annual_volatility\<close> uses the sample standard deviation (divisor
  \<open>n - 1\<close>, NaN for a single point), \<^verbatim>\<open>calculate_tracking_error\<close> and
  \<^verbatim>\<open>calculate_information_ratio\<close> use the population standard deviation (divisor \<open>n\<close>,
  0 for a single point). So on a series \<open>ds\<close> of \<open>n \<ge> 2\<close> differences the tracking error is
  the volatility of the same series times \<open>sqrt((n - 1) / n)\<close>.
\<close>

theorem two_standard_deviations:
  assumes "map snd (series_sub p b) = map Fin ds"
  shows "(2 \<le> length ds \<longrightarrow>
            calculate_annual_volatility (map Fin ds) =
              Fin (sqrt (sum_sq_dev ds / (real (length ds) - 1)) * sqrt 252) \<and>
            calculate_tracking_error p b =
              Fin (sqrt (sum_sq_dev ds / real (length ds)) * sqrt 252) \<and>
            calculate_information_ratio p b =
              fl_mul (fl_div (Fin (mean ds)) (Fin (sqrt (sum_sq_dev ds / real (length ds)))))
                (Fin (sqrt 252)) \<and>
            calculate_tracking_error p b =
              fl_mul (Fin (sqrt ((real (length ds) - 1) / real (length ds))))
                (calculate_annual_volatility (map Fin ds))) \<and>
         (length ds = 1 \<longrightarrow>
            calculate_annual_volatility (map Fin ds) = NaN \<and>
            calculate_tracking_error p b = Fin 0)"
proof (intro conjI impI)
  assume n: "2 \<le> length ds"
  show "calculate_annual_volatility (map Fin ds) =
              Fin (sqrt (sum_sq_dev ds / (real (length ds) - 1)) * sqrt 252)"
    using n by (rule calculate_annual_volatility_Fin)
  show "calculate_tracking_error p b =
              Fin (sqrt (sum_sq_dev ds / real (length ds)) * sqrt 252)"
    using assms n by (intro calculate_tracking_error_Fin) simp_all
  show "calculate_information_ratio p b =
              fl_mul (fl_div (Fin (mean ds)) (Fin (sqrt (sum_sq_dev ds / real (length ds)))))
                (Fin (sqrt 252))"
    using assms n by (intro calculate_information_ratio_Fin) simp_all
  show "calculate_tracking_error p b =
              fl_mul (Fin (sqrt ((real (length ds) - 1) / real (length ds))))
                (calculate_annual_volatility (map Fin ds))"
    using calculate_tracking_error_Fin[OF assms] calculate_annual_volatility_Fin[OF n]
      sqrt_ratio[OF n, of "sum_sq_dev ds"] n
    by simp
next
  assume n: "length ds = 1"
  then obtain x where x: "ds = [x]" by (cases ds) simp_all
  show "calculate_annual_volatility (map Fin ds) = NaN"
    using series_var_short[of ds 1] n
    by (simp add: calculate_annual_volatility_def series_std_def)
  show "calculate_tracking_error p b = Fin 0"
    using calculate_tracking_error_Fin[OF assms] x by simp
qed

theorem two_standard_deviations_witness:
  "map snd (series_sub [(0, Fin 3), (1, Fin 5)] [(0, Fin 2), (1, Fin 2)]) = map Fin [1, 3] \<and>
   calculate_annual_volatility [Fin 1, Fin 3] = Fin (sqrt 2 * sqrt 252) \<and>
   calculate_tracking_error [(0, Fin 3), (1, Fin 5)] [(0, Fin 2), (1, Fin 2)] = Fin (sqrt 252) \<and>
   calculate_tracking_error [(0, Fin 3), (1, Fin 5)] [(0, Fin 2), (1, Fin 2)] =
     fl_mul (Fin (sqrt (1 / 2))) (calculate_annual_volatility [Fin 1, Fin 3])"
proof -
  have d: "map snd (series_sub [(0, Fin 3), (1, Fin 5)] [(0, Fin 2), (1, Fin 2)]) =
             map Fin [1, 3]"
    by (simp add: series_sub_def)
  have s: "sum_sq_dev [1, 3] = 2"
    by (simp add: sum_sq_dev_def mean_def)
  show ?thesis
    using two_standard_deviations[OF d] d by (simp add: s flip: real_sqrt_mult)
qed

section \<open>Maximum drawdown\<close>

lemma maximum_drawdown_example:
  "calculate_maximum_drawdown [Fin 0, Fin (1 / 10), Fin (- (1 / 100))] = Fin (- (11 / 10))"
  by (simp add: calculate_maximum_drawdown_def Let_def isna_def fl_max_def fl_min_def
      series_min_def dropna_def signed_inf_def)

subsection \<open>A peak of zero (C3)\<close>

text \<open>
  C3 asks that \<^verbatim>\<open>calculate_maximum_drawdown\<close> leaves out every position whose running peak
  is 0 and returns the least of the other terms \<open>(cum[i] - peak[i]) / peak[i]\<close>. The code
  divides by the peak with no check. Where the peak is 0 and the cumulative return is 0
  too, the term is NaN and \<^verbatim>\<open>min()\<close> skips it; but where the cumulative return is below a
  peak of 0 the term is \<open>-inf\<close>, and that is the result. The prices \<open>[100, 90]\<close> give the
  cumulative returns \<open>[0, -0.1]\<close>, both peaks are 0, and the maximum drawdown is \<open>-inf\<close>.
\<close>

theorem maximum_drawdown_zero_peak_infinite:
  "calculate_cumulative_returns (Series [100, 90]) = Inr [Fin 0, Fin (- (1 / 10))] \<and>
   expanding_max NaN [Fin 0, Fin (- (1 / 10))] = [Fin 0, Fin 0] \<and>
   calculate_maximum_drawdown [Fin 0, Fin (- (1 / 10))] = NInf"
  by (simp add: calculate_cumulative_returns_def returns_def fillna_def pct_change_def
      shift1_def cumulative_returns_def cumprod_def calculate_maximum_drawdown_def Let_def
      isna_def fl_max_def fl_min_def series_min_def dropna_def signed_inf_def)

section \<open>Sortino ratio\<close>

subsection \<open>The Sortino ratio of a finite series (C7)\<close>

text \<open>
  C7: for every non-empty return series \<open>r\<close> and risk-free rate \<open>rf\<close>,
  \<^verbatim>\<open>calculate_sortino_ratio\<close> returns \<open>mean(r - rf/252) * 252 / downside_deviation\<close> with
  \<open>downside_deviation = sqrt(mean(min(r - rf/252, 0)\<^sup>2)) * sqrt(252)\<close>, and NaN whenever
  the downside deviation is 0.
\<close>

theorem calculate_sortino_ratio_formula:
  assumes "rs \<noteq> []"
  shows "calculate_sortino_ratio (map Fin rs) rf =
     (if downside_deviation rs rf = 0 then NaN
      else Fin (mean (map (\<lambda>r. r - rf / 252) rs) * 252 / downside_deviation rs rf))"
proof -
  let ?e = "map (\<lambda>r. r - rf / 252) rs"
  let ?sq = "map (\<lambda>r. (min (r - rf / 252) 0)\<^sup>2) rs"
  have e: "map (\<lambda>r. fl_sub r (Fin (rf / 252))) (map Fin rs) = map Fin ?e"
    by simp
  have d: "map (\<lambda>d. fl_mul d d) (map (\<lambda>e. np_minimum e (Fin 0)) (map Fin ?e)) = map Fin ?sq"
    by (simp add: power2_eq_square)
  have m1: "series_mean (map Fin ?e) = Fin (mean ?e)"
    by (rule series_mean_Fin) (simp add: assms)
  have m2: "series_mean (map Fin ?sq) = Fin (mean ?sq)"
    by (rule series_mean_Fin) (simp add: assms)
  have nn: "0 \<le> mean ?sq"
    by (rule mean_nonneg) auto
  have dd: "fl_mul (fl_sqrt (Fin (mean ?sq))) (Fin (sqrt 252)) = Fin (downside_deviation rs rf)"
    using nn by (simp add: downside_deviation_def)
  show ?thesis
    unfolding calculate_sortino_ratio_def Let_def e d m1 m2 dd
    by (simp add: fl_eq_def)
qed

theorem calculate_sortino_ratio_formula_witness:
  "[- 1, 1] \<noteq> ([] :: real list) \<and> [1, 2] \<noteq> ([] :: real list) \<and>
   downside_deviation [- 1, 1] 0 = sqrt (1 / 2) * sqrt 252 \<and>
   calculate_sortino_ratio [Fin (- 1), Fin 1] 0 = Fin 0 \<and>
   downside_deviation [1, 2] 0 = 0 \<and>
   calculate_sortino_ratio [Fin 1, Fin 2] 0 = NaN"
proof -
  have ne: "[- 1, 1] \<noteq> ([] :: real list)" "[1, 2] \<noteq> ([] :: real list)" by simp_all
  have d1: "downside_deviation [- 1, 1] 0 = sqrt (1 / 2) * sqrt 252"
    by (simp add: downside_deviation_def mean_def)
  have d2: "downside_deviation [1, 2] 0 = 0"
    by (simp add: downside_deviation_def mean_def)
  have "sqrt (1 / 2) * sqrt 252 \<noteq> 0" by simp
  then have "calculate_sortino_ratio [Fin (- 1), Fin 1] 0 = Fin 0"
    using calculate_sortino_ratio_formula[OF ne(1), of 0] by (simp add: d1 mean_def)
  moreover have "calculate_sortino_ratio [Fin 1, Fin 2] 0 = NaN"
    using calculate_sortino_ratio_formula[OF ne(2), of 0] by (simp add: d2)
  ultimately show ?thesis using d1 d2 by simp
qed

section \<open>Value at risk\<close>

lemma fl_insort_Fin: "fl_insort (Fin x) (map Fin ys) = map Fin (insort x ys)"
  by (induction ys) auto

lemma fl_sort_Fin: "fl_sort (map Fin xs) = map Fin (sort xs)"
  by (induction xs) (simp_all add: fl_sort_def sort_key_def fl_insort_Fin)

lemma lerp_Fin: "lerp (Fin a) (Fin b) t = Fin (a + t * (b - a))"
  by (simp add: lerp_def algebra_simps)

lemma floor_pos_le:
  assumes "0 \<le> q" "q \<le> 1"
  shows "nat \<lfloor>q * real n\<rfloor> \<le> n"
proof -
  have "q * real n \<le> real n" using assms by (simp add: mult_left_le_one_le)
  then have "\<lfloor>q * real n\<rfloor> \<le> int n" by (simp add: floor_le_iff)
  then show ?thesis by simp
qed

lemma quantile_Fin:
  assumes "xs \<noteq> []" "0 \<le> q" "q \<le> 1"
  shows "quantile (map Fin xs) q = Inr (Fin (quantile_linear xs q))"
proof -
  let ?n = "length xs"
  let ?lo = "nat \<lfloor>q * real (?n - 1)\<rfloor>"
  let ?hi = "min (?lo + 1) (?n - 1)"
  have n: "0 < ?n" using assms(1) by simp
  have "?lo \<le> ?n - 1"
    using assms(2,3) by (rule floor_pos_le)
  then have "?lo < ?n" using n by arith
  then have lo: "?lo < length (sort xs)" by (simp only: length_sort)
  have "?hi \<le> ?n - 1" by (rule min.cobounded2)
  then have "?hi < ?n" using n by arith
  then have hi: "?hi < length (sort xs)" by (simp only: length_sort)
  have ne: "sort xs \<noteq> []"
    using assms(1) by (metis length_sort length_0_conv)
  show ?thesis
    using assms n lo hi ne
    by (simp add: quantile_def Let_def fl_sort_Fin quantile_linear_def lerp_Fin not_less)
qed

lemma calculate_var_Fin:
  assumes "xs \<noteq> []"
  shows "calculate_var (map Fin xs) (19 / 20) 252 =
           Inr (Fin (- (quantile_linear xs (1 / 20) * sqrt 252)))"
  using quantile_Fin[OF assms, of "1 / 20"] assms
  by (simp add: calculate_var_def)

lemma quantile_linear_example: "quantile_linear var_example (1 / 20) = - (17 / 1000)"
  by (simp add: quantile_linear_def var_example_def Let_def)

lemma sqrt_252_bounds: "15874 / 1000 < sqrt 252" "sqrt 252 < 15875 / 1000"
  by (rule real_less_rsqrt, simp add: power2_eq_square)
    (rule real_less_lsqrt, simp_all add: power2_eq_square)

lemma var_example_not_Nil: "var_example \<noteq> []"
  by (simp add: var_example_def)

lemma quantile_example:
  "quantile (map Fin var_example) (1 / 20) = Inr (Fin (- (17 / 1000)))"
proof -
  have "quantile (map Fin var_example) (1 / 20) =
          Inr (Fin (quantile_linear var_example (1 / 20)))"
    using var_example_not_Nil by (rule quantile_Fin) simp_all
  then show ?thesis by (simp only: quantile_linear_example)
qed

lemma calculate_var_example:
  "calculate_var (map Fin var_example) (19 / 20) 252 = Inr (Fin (17 / 1000 * sqrt 252))"
proof -
  have "calculate_var (map Fin var_example) (19 / 20) 252 =
          Inr (Fin (- (quantile_linear var_example (1 / 20) * sqrt 252)))"
    using var_example_not_Nil by (rule calculate_var_Fin)
  then show ?thesis by (simp only: quantile_linear_example) simp
qed

subsection \<open>The value at risk and its example (C4)\<close>

text \<open>
  C4, as the specification states it, gives an annualized value at risk of about
  \<open>0.3175\<close>, that is \<open>0.02 * sqrt(252)\<close>, for the returns
  \<open>[0.01, -0.02, 0.015, -0.005, 0.02]\<close>. \<^verbatim>\<open>Series.quantile\<close> interpolates: the 5th
  percentile of the five returns lies \<open>0.2\<close> of the way from \<open>-0.02\<close> to \<open>-0.005\<close>, which
  is \<open>-0.017\<close>, and the value at risk is \<open>0.017 * sqrt(252)\<close>, below \<open>0.27\<close>.
\<close>

theorem calculate_var_example_not_0_3175:
  "\<not> (\<exists>v. calculate_var (map Fin var_example) (19 / 20) 252 = Inr (Fin v) \<and>
          \<bar>v - 3175 / 10000\<bar> < 4 / 100)"
proof
  assume "\<exists>v. calculate_var (map Fin var_example) (19 / 20) 252 = Inr (Fin v) \<and>
          \<bar>v - 3175 / 10000\<bar> < 4 / 100"
  then have "\<bar>17 / 1000 * sqrt 252 - 3175 / 10000\<bar> < 4 / 100"
    by (auto simp only: calculate_var_example sum.inject fl.inject)
  then show False using sqrt_252_bounds by simp
qed

text \<open>
  C4, amended: for every non-empty return series \<open>r\<close> of finite values,
  \<^verbatim>\<open>calculate_var\<close> at confidence \<open>0.95\<close> returns \<open>- quantile(r, 0.05) * sqrt(252)\<close>, where
  the quantile interpolates linearly between the order statistics; the result is positive
  exactly when that quantile is a loss. For empty input it returns NaN. On the returns
  \<open>[0.01, -0.02, 0.015, -0.005, 0.02]\<close> the 5th percentile is \<open>-0.017\<close> and the annualized
  value at risk is \<open>0.017 * sqrt(252)\<close>, between \<open>0.2698\<close> and \<open>0.2699\<close>.
\<close>

theorem calculate_var_linear_quantile:
  "calculate_var [] (19 / 20) 252 = Inr NaN \<and>
   (xs \<noteq> [] \<longrightarrow>
      calculate_var (map Fin xs) (19 / 20) 252 =
        Inr (Fin (- (quantile_linear xs (1 / 20) * sqrt 252))) \<and>
      (0 < - (quantile_linear xs (1 / 20) * sqrt 252) \<longleftrightarrow>
         quantile_linear xs (1 / 20) < 0)) \<and>
   quantile (map Fin var_example) (1 / 20) = Inr (Fin (- (17 / 1000))) \<and>
   calculate_var (map Fin var_example) (19 / 20) 252 = Inr (Fin (17 / 1000 * sqrt 252)) \<and>
   2698 / 10000 < 17 / 1000 * sqrt 252 \<and> 17 / 1000 * sqrt 252 < 2699 / 10000"
proof -
  have empty: "calculate_var [] (19 / 20) 252 = Inr NaN"
    by (simp add: calculate_var_def)
  have sign: "(0 < - (quantile_linear xs (1 / 20) * sqrt 252)) = (quantile_linear xs (1 / 20) < 0)"
    by (simp add: mult_less_0_iff)
  have gen: "xs \<noteq> [] \<longrightarrow>
      calculate_var (map Fin xs) (19 / 20) 252 =
        Inr (Fin (- (quantile_linear xs (1 / 20) * sqrt 252)))"
    using calculate_var_Fin[of xs] by blast
  have b: "2698 / 10000 < 17 / 1000 * sqrt 252" "17 / 1000 * sqrt 252 < 2699 / 10000"
    using sqrt_252_bounds by simp_all
  show ?thesis
    using empty gen sign quantile_example calculate_var_example b by blast
qed

theorem calculate_var_linear_quantile_witness:
  "[1, 2 :: real] \<noteq> [] \<and>
   quantile_linear [1, 2] (1 / 20) = 21 / 20 \<and>
   calculate_var [Fin 1, Fin 2] (19 / 20) 252 = Inr (Fin (- (21 / 20 * sqrt 252)))"
proof -
  have ne: "[1, 2 :: real] \<noteq> []" by simp
  have q: "quantile_linear [1, 2] (1 / 20) = 21 / 20"
    by (simp add: quantile_linear_def Let_def)
  have "calculate_var (map Fin [1, 2]) (19 / 20) 252 =
          Inr (Fin (- (quantile_linear [1, 2] (1 / 20) * sqrt 252)))"
    using calculate_var_linear_quantile[of "[1, 2]"] ne by blast
  then have "calculate_var [Fin 1, Fin 2] (19 / 20) 252 = Inr (Fin (- (21 / 20 * sqrt 252)))"
    by (simp only: q list.map)
  then show ?thesis using ne q by blast
qed

section \<open>Alpha and beta\<close>

lemma calculate_alpha_beta_rows:
  "calculate_alpha_beta p b =
     (let valid_data = valid_rows p b in
      if length valid_data < 2 then (NaN, NaN)
      else
        let p' = map fst (map snd valid_data);
            b' = map snd (map snd valid_data);
            covariance = np_cov p' b';
            benchmark_variance = series_var 0 b'
        in if fl_eq benchmark_variance (Fin 0) then (NaN, NaN)
           else
             let beta = fl_div covariance benchmark_variance;
                 alpha = fl_sub (series_mean p') (fl_mul beta (series_mean b'))
             in (fl_mul alpha (Fin 252), beta))"
proof -
  have 1: "(\<lambda>(t, x, y). x) = fst \<circ> snd" by auto
  have 2: "(\<lambda>(t, x, y). y) = snd \<circ> snd" by auto
  show ?thesis
    by (simp add: calculate_alpha_beta_def valid_rows_def Let_def 1 2 split: prod.splits)
qed

text \<open>With fewer than 2 rows left after the join and the drop, both results are NaN.\<close>

lemma calculate_alpha_beta_few_rows:
  "length (valid_rows p b) < 2 \<Longrightarrow> calculate_alpha_beta p b = (NaN, NaN)"
  by (simp add: calculate_alpha_beta_rows Let_def)

lemma valid_rows_self:
  "valid_rows [(0, Fin 1), (1, Fin 2)] [(0, Fin 1), (1, Fin 2)] =
     [(0, Fin 1, Fin 1), (1, Fin 2, Fin 2)]"
  by (simp add: valid_rows_def align_inner_def concat_columns_def dropna_rows_def)

lemma np_cov_self: "np_cov [Fin 1, Fin 2] [Fin 1, Fin 2] = Fin (1 / 2)"
  by (simp add: np_cov_def np_mean_def Let_def)

lemma series_var_self:
  "series_var 0 [Fin 1, Fin 2] = Fin (1 / 4)" "series_var 1 [Fin 1, Fin 2] = Fin (1 / 2)"
  using series_var_Fin[of 0 "[1, 2]"] series_var_Fin[of 1 "[1, 2]"]
  by (simp_all add: sum_sq_dev_def mean_def power2_eq_square)

subsection \<open>Beta of a series against itself (C5)\<close>

text \<open>
  C5 asks that \<^verbatim>\<open>calculate_alpha_beta\<close>, on at least 2 aligned points with a benchmark
  variance that is not 0, returns \<open>beta = cov(r, b) / var(b)\<close> and
  \<open>alpha = (mean(r) - beta * mean(b)) * 252\<close>: the slope and the annualized intercept of
  the portfolio returns against the benchmark returns. The code divides the covariance of
  \<^verbatim>\<open>np.cov\<close>, which has the divisor \<open>n - 1\<close>, by the variance of \<^verbatim>\<open>np.var\<close>, which has the
  divisor \<open>n\<close>, so its beta is \<open>n / (n - 1)\<close> times the slope. For the returns \<open>1, 2\<close>
  against themselves the slope is 1 and the intercept 0; the covariance of the code is
  \<open>1/2\<close>, its variance \<open>1/4\<close> (the variance with the divisor \<open>n - 1\<close> is \<open>1/2\<close>), and it
  returns beta 2 and alpha \<open>-378\<close>.
\<close>

theorem calculate_alpha_beta_self_beta_two:
  "np_cov [Fin 1, Fin 2] [Fin 1, Fin 2] = Fin (1 / 2) \<and>
   series_var 0 [Fin 1, Fin 2] = Fin (1 / 4) \<and>
   series_var 1 [Fin 1, Fin 2] = Fin (1 / 2) \<and>
   calculate_alpha_beta [(0, Fin 1), (1, Fin 2)] [(0, Fin 1), (1, Fin 2)] =
     (Fin (- 378), Fin 2)"
proof -
  have m: "series_mean [Fin 1, Fin 2] = Fin (3 / 2)"
    using series_mean_Fin[of "[1, 2]"] by (simp add: mean_def)
  have "calculate_alpha_beta [(0, Fin 1), (1, Fin 2)] [(0, Fin 1), (1, Fin 2)] =
          (Fin (- 378), Fin 2)"
    unfolding calculate_alpha_beta_rows valid_rows_self Let_def
    by (simp add: np_cov_self series_var_self(1) m fl_eq_def)
  then show ?thesis
    using np_cov_self series_var_self by simp
qed

end
